theory Spec2Isabelle
  imports Complex_Main
begin

section \<open>Localized component filtering: the model of \<open>cleaning/lcf.py\<close>\<close>

text \<open>
  The theory embeds the three functions of \<open>event_creation/submission/cleaning/lcf.py\<close>:
  the part of \<open>run_lcf\<close> that turns the session's event markers into excluded periods and
  recording phases, \<open>lcf\<close> (classification and mixing) and \<open>reconstruct_signal\<close>.

  Conventions of the model.
  \<^item> Sample positions are integers (\<open>int\<close>): the event field \<open>eegoffset\<close> is a 64-bit
    integer of numpy and \<open>eeg.n_times\<close> a Python integer. The one arithmetic operation on
    64-bit integers, \<open>onsets[i] + 1\<close>, wraps around on overflow, which \<open>int64\<close> writes out.
  \<^item> The sampling rate \<open>samp_rate = eeg.info['sfreq']\<close> is a float. Floats are the real
    numbers they denote, and a float operation of \<open>run_lcf\<close> is the exact operation followed
    by the rounding \<open>float64\<close>.
  \<^item> \<open>eeg.times\<close> is the array whose entry \<open>k\<close> is the time of sample \<open>k\<close>; it is strictly
    increasing, so a time read from it is represented by the sample position it belongs to.
  \<^item> Exceptions are values of \<open>error\<close>; a function that may raise returns \<open>error + 'a\<close>.
  \<^item> The arrays that \<open>lcf\<close> and \<open>reconstruct_signal\<close> receive hold real numbers. The arrays
    that \<open>lcf\<close> computes from the marks on hold values of \<open>sample\<close>: a real number or
    \<open>nan\<close>. The arithmetic on real numbers is exact there: the rounding of these float
    operations is not part of the model.
\<close>

subsection \<open>Events and errors\<close>

record event =
  type :: string
  eegoffset :: int

text \<open>
  \<open>IndexError\<close> and \<open>ValueError\<close> are the exceptions of Python, numpy and mne that the
  modelled code can raise.
\<close>

datatype error = IndexError | ValueError

text \<open>\<open>np.where(cond)[0]\<close> on a one-dimensional array: the positions where the condition holds.\<close>

definition np_where :: "('a \<Rightarrow> bool) \<Rightarrow> 'a list \<Rightarrow> nat list" where
  "np_where P xs = filter (\<lambda>i. P (xs ! i)) [0..<length xs]"

subsection \<open>Integers and floats\<close>

text \<open>
  The result of an operation on 64-bit signed integers whose exact result is \<open>k\<close>: numpy
  wraps around (and warns) on overflow.
\<close>

definition int64 :: "int \<Rightarrow> int" where
  "int64 k = (k + 2 ^ 63) mod 2 ^ 64 - 2 ^ 63"

text \<open>
  The float that a float operation returns when its exact result is \<open>x\<close>: the nearest
  number with 53 significant bits, the one with an even last bit when two are equally near.
  \<open>e\<close> is the binary exponent of \<open>x\<close> and \<open>ulp\<close> the distance between neighbouring floats at
  that exponent. The exponent is not bounded: there is no overflow to infinity and there are
  no subnormal numbers, which the sample positions and sampling rates of a recording do not
  reach.
\<close>

definition float64 :: "real \<Rightarrow> real" where
  "float64 x =
     (if x = 0 then 0
      else (let e = \<lfloor>log 2 \<bar>x\<bar>\<rfloor>;
                ulp = 2 powi (e - 52);
                q = x / ulp;
                n = \<lfloor>q\<rfloor>;
                r = q - of_int n
            in ulp * of_int (if r < 1/2 then n
                             else if 1/2 < r then n + 1
                             else if even n then n else n + 1)))"

text \<open>
  An entry of the Python list \<open>offsets\<close>: an integer (a Python integer or a 64-bit integer
  of numpy) or a float.
\<close>

datatype number = IntNum int | FloatNum real

subsection \<open>Excluded periods (\<open>run_lcf\<close>, \<open>skip_breaks\<close> branch, up to the two sorts)\<close>

text \<open>
  Line 114, \<open>evs[idx + 1].eegoffset - 5 * samp_rate\<close>: the product is a float, the offset is
  converted to a float, and the difference is a float.
\<close>

definition five_seconds_before :: "event list \<Rightarrow> real \<Rightarrow> nat \<Rightarrow> real" where
  "five_seconds_before evs samp_rate idx =
     float64 (float64 (real_of_int (eegoffset (evs ! (idx + 1)))) - float64 (5 * samp_rate))"

text \<open>
  Line 116, \<open>o < onsets[i]\<close>, where \<open>onsets[i]\<close> is a 64-bit integer: an integer \<open>o\<close> is
  compared as an integer, a float \<open>o\<close> with \<open>onsets[i]\<close> converted to a float.
\<close>

fun number_less :: "number \<Rightarrow> int \<Rightarrow> bool" where
  "number_less (IntNum k) m = (k < m)"
| "number_less (FloatNum x) m = (x < float64 (real_of_int m))"

text \<open>
  The loop over \<open>enumerate(rest_rewet_idx)\<close>. \<open>onsets\<close> has just been overwritten with the
  offsets of the \<open>REST_REWET\<close> events; \<open>offsets\<close> still holds what the session start and end
  appended, and grows by one entry per break: the Python integer \<open>eeg.n_times - 1\<close>, the
  float of line 114, or the 64-bit integer \<open>onsets[i] + 1\<close>.
\<close>

fun rest_loop :: "event list \<Rightarrow> int \<Rightarrow> real \<Rightarrow> int list \<Rightarrow> nat \<Rightarrow> nat list \<Rightarrow> number list
    \<Rightarrow> number list" where
  "rest_loop evs n_times samp_rate onsets i [] offsets = offsets"
| "rest_loop evs n_times samp_rate onsets i (idx # rest) offsets =
     (let o1 = (if length evs = idx + 1 then IntNum (n_times - 1)
                else FloatNum (five_seconds_before evs samp_rate idx));
          o2 = (if number_less o1 (onsets ! i) then IntNum (int64 (onsets ! i + 1)) else o1)
      in rest_loop evs n_times samp_rate onsets (Suc i) rest (offsets @ [o2]))"

text \<open>
  \<open>np.sort(offsets)\<close> as an array of indices. The list becomes an array of 64-bit integers
  when every entry is an integer, and an array of floats when one entry is a float. The
  sorted array is used once, as the index in \<open>eeg.times[offsets]\<close> (line 141), where an
  array of floats is refused with \<open>IndexError\<close>: \<open>None\<close> is the array of floats.
\<close>

fun integer_array :: "number list \<Rightarrow> int list option" where
  "integer_array [] = Some []"
| "integer_array (IntNum k # xs) = map_option ((#) k) (integer_array xs)"
| "integer_array (FloatNum x # xs) = None"

text \<open>
  The loop over \<open>enumerate(break_start_idx)\<close>. \<open>break_stop_idx[i]\<close> raises \<open>IndexError\<close> when
  there are fewer stops than starts. \<open>break_stop_idx\<close> was computed on \<open>evs[1:]\<close> and is used,
  unshifted, as an index into \<open>evs\<close>.
\<close>

fun break_loop :: "event list \<Rightarrow> nat list \<Rightarrow> nat \<Rightarrow> nat list \<Rightarrow> int list \<times> int list
    \<Rightarrow> error + (int list \<times> int list)" where
  "break_loop evs break_stop_idx i [] (onsets, offsets) = Inr (onsets, offsets)"
| "break_loop evs break_stop_idx i (idx # rest) (onsets, offsets) =
     (if i < length break_stop_idx
      then break_loop evs break_stop_idx (Suc i) rest
             (onsets @ [eegoffset (evs ! idx)],
              offsets @ [eegoffset (evs ! (break_stop_idx ! i))])
      else Inl IndexError)"

text \<open>
  Lines 87 to 139: the result is \<open>sess_start_in_recording\<close> and the sorted \<open>onsets\<close> and
  \<open>offsets\<close>, as the arrays of integers that lines 140 and 141 index \<open>eeg.times\<close> with.
  \<open>evs[0]\<close> raises \<open>IndexError\<close> when the recording has no event. In the branch of the
  \<open>REST_REWET\<close> events an end can be a float; \<open>offsets\<close> is then an array of floats after
  line 139, no statement reads it before line 141, and line 141 raises \<open>IndexError\<close>, which
  is the result here. (Line 140 reads \<open>onsets\<close> only and raises nothing else than
  \<open>IndexError\<close>.) The other branches append integers only.
\<close>

definition run_lcf_exclusions :: "event list \<Rightarrow> int \<Rightarrow> real \<Rightarrow> error + (bool \<times> int list \<times> int list)" where
  "run_lcf_exclusions evs n_times samp_rate =
     (case evs of
        [] \<Rightarrow> Inl IndexError
      | e0 # _ \<Rightarrow>
          (let sess_start_in_recording = (type e0 = ''SESS_START'');
               (on0, off0) = (if sess_start_in_recording then ([0], [eegoffset e0]) else ([], []));
               (on1, off1) = (if type (last evs) = ''SESS_END''
                              then (on0 @ [eegoffset (last evs)], off0 @ [n_times - 1])
                              else (on0, off0));
               rest_rewet_idx = np_where (\<lambda>e. type e = ''REST_REWET'') evs;
               break_start_idx = np_where (\<lambda>e. type e = ''BREAK_START'') (butlast evs);
               break_stop_idx = np_where (\<lambda>e. type e = ''BREAK_STOP'') (tl evs)
           in if rest_rewet_idx \<noteq> []
              then (let onsets = map (\<lambda>idx. eegoffset (evs ! idx)) rest_rewet_idx
                    in case integer_array (rest_loop evs n_times samp_rate onsets 0 rest_rewet_idx
                                             (map IntNum off1)) of
                         None \<Rightarrow> Inl IndexError
                       | Some offsets \<Rightarrow> Inr (sess_start_in_recording, sort onsets, sort offsets))
              else if break_start_idx \<noteq> []
              then (let (on2, off2) = (if type e0 = ''BREAK_STOP''
                                       then (on1 @ [0], off1 @ [eegoffset e0]) else (on1, off1));
                        (on3, off3) = (if type (last evs) = ''BREAK_START''
                                       then (on2 @ [eegoffset (last evs)], off2 @ [n_times - 1])
                                       else (on2, off2))
                    in case break_loop evs break_stop_idx 0 break_start_idx (on3, off3) of
                         Inl e \<Rightarrow> Inl e
                       | Inr (onsets, offsets) \<Rightarrow>
                           Inr (sess_start_in_recording, sort onsets, sort offsets))
              else Inr (sess_start_in_recording, sort on1, sort off1)))"

subsection \<open>Annotations (lines 140 to 145)\<close>

text \<open>
  \<open>eeg.times[k]\<close> for an integer \<open>k\<close>: a negative index counts from the end, an index
  outside \<open>[-n_times, n_times)\<close> raises. The result is the position of the sample read.
\<close>

definition times_index :: "int \<Rightarrow> int \<Rightarrow> error + int" where
  "times_index n_times k =
     (if 0 \<le> k \<and> k < n_times then Inr k
      else if - n_times \<le> k \<and> k < 0 then Inr (k + n_times)
      else Inl IndexError)"

text \<open>\<open>eeg.times[ks]\<close> for an array of integers.\<close>

fun times_take :: "int \<Rightarrow> int list \<Rightarrow> error + int list" where
  "times_take n_times [] = Inr []"
| "times_take n_times (k # ks) =
     (case times_index n_times k of
        Inl e \<Rightarrow> Inl e
      | Inr p \<Rightarrow> (case times_take n_times ks of Inl e \<Rightarrow> Inl e | Inr ps \<Rightarrow> Inr (p # ps)))"

text \<open>
  The annotations are the pairs (sample where the period starts, sample where it ends):
  annotation \<open>i\<close> starts at \<open>eeg.times[onsets[i]]\<close> and lasts
  \<open>eeg.times[offsets[i]] - eeg.times[onsets[i]]\<close>. An empty \<open>onsets\<close> is a float array
  after \<open>np.sort\<close> and is refused as an index (\<open>IndexError\<close>); \<open>onsets\<close> and \<open>offsets\<close> of
  different lengths are refused by the subtraction or by \<open>mne.Annotations\<close> (\<open>ValueError\<close>).
\<close>

definition run_lcf_annotate :: "int \<Rightarrow> int list \<Rightarrow> int list \<Rightarrow> error + (int \<times> int) list" where
  "run_lcf_annotate n_times onsets offsets =
     (if onsets = [] then Inl IndexError
      else case times_take n_times onsets of
        Inl e \<Rightarrow> Inl e
      | Inr onset_times \<Rightarrow>
          (if offsets = [] then Inl IndexError
           else case times_take n_times offsets of
             Inl e \<Rightarrow> Inl e
           | Inr offset_times \<Rightarrow>
               (if length onset_times = length offset_times
                then Inr (zip onset_times offset_times)
                else Inl ValueError)))"

subsection \<open>Phases (lines 151 to 165)\<close>

text \<open>
  A phase is a cropped copy of the recording: the samples from \<open>first_sample\<close> to
  \<open>last_sample\<close>, both included (\<open>crop(tmin, tmax)\<close> keeps both ends).
\<close>

record phase =
  first_sample :: int
  last_sample :: int

text \<open>
  The variable \<open>start\<close> is the integer \<open>0\<close> before the loop; after a phase it is
  \<open>eeg.times[stop + 1]\<close>, a time in seconds. \<open>Index k\<close> is the integer \<open>k\<close>; \<open>Time p\<close> is the
  float \<open>eeg.times[p]\<close>.
\<close>

datatype start_point = Index int | Time int

text \<open>\<open>eeg.times[start]\<close>: a float is not a valid index (\<open>IndexError\<close>).\<close>

fun times_start :: "int \<Rightarrow> start_point \<Rightarrow> error + int" where
  "times_start n_times (Index k) = times_index n_times k"
| "times_start n_times (Time p) = Inl IndexError"

text \<open>
  The loop \<open>for i, stop in enumerate(offsets)\<close>; the accumulator is \<open>eeg_list\<close>.
  \<open>crop\<close> raises \<open>ValueError\<close> when \<open>tmin > tmax\<close>.
\<close>

fun split_loop :: "int \<Rightarrow> bool \<Rightarrow> nat \<Rightarrow> int list \<Rightarrow> start_point \<Rightarrow> phase list
    \<Rightarrow> error + phase list" where
  "split_loop n_times sess_start_in_recording i [] start eeg_list = Inr eeg_list"
| "split_loop n_times sess_start_in_recording i (stop # rest) start eeg_list =
     (if i = 0 \<and> sess_start_in_recording
      then split_loop n_times sess_start_in_recording (Suc i) rest start eeg_list
      else case times_start n_times start of
        Inl e \<Rightarrow> Inl e
      | Inr tmin \<Rightarrow>
          (case times_index n_times stop of
             Inl e \<Rightarrow> Inl e
           | Inr tmax \<Rightarrow>
               (if tmax < tmin then Inl ValueError
                else case times_index n_times (stop + 1) of
                  Inl e \<Rightarrow> Inl e
                | Inr p \<Rightarrow>
                    split_loop n_times sess_start_in_recording (Suc i) rest (Time p)
                      (eeg_list @ [\<lparr>first_sample = tmin, last_sample = tmax\<rparr>]))))"

subsection \<open>The segmentation of one recording (lines 86 to 177)\<close>

text \<open>
  \<open>annotations\<close> are the excluded periods set on the recording, \<open>eeg_list\<close> the phases, and
  \<open>ica_list\<close> one entry per fitted decomposition: the phase it was fitted on and whether
  the fit was told to reject the annotated samples.
\<close>

record segmentation =
  annotations :: "(int \<times> int) list"
  eeg_list :: "phase list"
  ica_list :: "(phase \<times> bool) list"

definition run_lcf_segment :: "event list \<Rightarrow> int \<Rightarrow> real \<Rightarrow> bool \<Rightarrow> error + segmentation" where
  "run_lcf_segment evs n_times samp_rate skip_breaks =
     (if skip_breaks
      then (case run_lcf_exclusions evs n_times samp_rate of
              Inl e \<Rightarrow> Inl e
            | Inr (sess_start_in_recording, onsets, offsets) \<Rightarrow>
                (case run_lcf_annotate n_times onsets offsets of
                   Inl e \<Rightarrow> Inl e
                 | Inr ann \<Rightarrow>
                     (case split_loop n_times sess_start_in_recording 0 offsets (Index 0) [] of
                        Inl e \<Rightarrow> Inl e
                      | Inr ps \<Rightarrow>
                          Inr \<lparr>annotations = ann, eeg_list = ps,
                               ica_list = map (\<lambda>p. (p, True)) ps\<rparr>)))
      else (let eeg = \<lparr>first_sample = 0, last_sample = n_times - 1\<rparr>
            in Inr \<lparr>annotations = [], eeg_list = [eeg], ica_list = [(eeg, False)]\<rparr>))"

text \<open>
  \<open>mne.concatenate_raws(eeg_list)\<close>: the samples of the pieces, in order; it reads
  \<open>raws[0]\<close> first, which raises on an empty list. A sample is named by its position in
  the original recording.
\<close>

definition phase_samples :: "phase \<Rightarrow> int list" where
  "phase_samples p = [first_sample p..last_sample p]"

definition concatenate_raws :: "phase list \<Rightarrow> error + int list" where
  "concatenate_raws raws =
     (if raws = [] then Inl IndexError else Inr (concat (map phase_samples raws)))"

subsection \<open>The session and the paired markers in the statements\<close>

text \<open>
  What the session start and the session end contribute to \<open>onsets\<close> and to \<open>offsets\<close>
  (lines 91 to 97).
\<close>

definition session_onsets :: "event list \<Rightarrow> int list" where
  "session_onsets evs =
     (if type (hd evs) = ''SESS_START'' then [0] else []) @
     (if type (last evs) = ''SESS_END'' then [eegoffset (last evs)] else [])"

definition session_offsets :: "event list \<Rightarrow> int \<Rightarrow> int list" where
  "session_offsets evs n_times =
     (if type (hd evs) = ''SESS_START'' then [eegoffset (hd evs)] else []) @
     (if type (last evs) = ''SESS_END'' then [n_times - 1] else [])"

text \<open>
  An event list in which the paired markers are ordinary events: \<open>BREAK_START\<close> and
  \<open>BREAK_STOP\<close> lose their type, every other event is kept.
\<close>

definition as_plain_event :: "event \<Rightarrow> event" where
  "as_plain_event e =
     (if type e = ''BREAK_START'' \<or> type e = ''BREAK_STOP'' then e\<lparr>type := ''''\<rparr> else e)"

section \<open>The model of \<open>lcf\<close>\<close>

text \<open>
  A two-dimensional array is the list of its rows. The loops over the rows collect the rows'
  results and stop at the first exception.
\<close>

type_synonym matrix = "real list list"

fun collect :: "(error + 'a) list \<Rightarrow> error + 'a list" where
  "collect [] = Inr []"
| "collect (r # rs) =
     (case r of
        Inl e \<Rightarrow> Inl e
      | Inr x \<Rightarrow> (case collect rs of Inl e \<Rightarrow> Inl e | Inr xs \<Rightarrow> Inr (x # xs)))"

text \<open>\<open>int(x)\<close> on a float: truncation towards zero.\<close>

definition py_int :: "real \<Rightarrow> int" where
  "py_int x = (if 0 \<le> x then \<lfloor>x\<rfloor> else \<lceil>x\<rceil>)"

subsection \<open>Classification\<close>

text \<open>
  \<open>np.percentile(row, q)\<close> with numpy's default linear interpolation: position
  \<open>(n - 1) * q / 100\<close> in the sorted row, interpolated between its two neighbours.
\<close>

definition percentile :: "real list \<Rightarrow> real \<Rightarrow> real" where
  "percentile row q =
     (let s = sort row;
          pos = real (length row - 1) * q / 100;
          lo = nat \<lfloor>pos\<rfloor>;
          hi = min (lo + 1) (length row - 1)
      in s ! lo + (pos - real lo) * (s ! hi - s ! lo))"

text \<open>
  Lines 226 to 238 for one row of \<open>feat\<close>: the two thresholds, and the comparison that
  marks a sample (\<open>1\<close>) or not (\<open>0\<close>).
\<close>

definition classify_row :: "real \<Rightarrow> real list \<Rightarrow> real list" where
  "classify_row iqr_thresh row =
     (let p75 = percentile row 75;
          p25 = percentile row 25;
          iqr = p75 - p25;
          pos_thresh = p75 + iqr * iqr_thresh;
          neg_thresh = p25 - iqr * iqr_thresh
      in map (\<lambda>x. if x > pos_thresh \<or> x < neg_thresh then 1 else 0) row)"

subsection \<open>The entries of the control signal\<close>

text \<open>
  An entry of the float array \<open>ctrl_signal\<close>, and of the array that \<open>lcf\<close> returns: a real
  number or \<open>nan\<close>. An arithmetic operation with a \<open>nan\<close> operand gives \<open>nan\<close>, and a
  comparison with a \<open>nan\<close> operand is false. numpy raises no exception when a \<open>nan\<close>
  arises or is an operand.
\<close>

datatype sample = Finite real | NaN

fun sample_plus :: "sample \<Rightarrow> sample \<Rightarrow> sample" where
  "sample_plus (Finite x) (Finite y) = Finite (x + y)"
| "sample_plus NaN y = NaN"
| "sample_plus (Finite x) NaN = NaN"

fun sample_minus :: "sample \<Rightarrow> sample \<Rightarrow> sample" where
  "sample_minus (Finite x) (Finite y) = Finite (x - y)"
| "sample_minus NaN y = NaN"
| "sample_minus (Finite x) NaN = NaN"

fun sample_times :: "sample \<Rightarrow> sample \<Rightarrow> sample" where
  "sample_times (Finite x) (Finite y) = Finite (x * y)"
| "sample_times NaN y = NaN"
| "sample_times (Finite x) NaN = NaN"

fun sample_abs :: "sample \<Rightarrow> sample" where
  "sample_abs (Finite x) = Finite \<bar>x\<bar>"
| "sample_abs NaN = NaN"

fun sample_le :: "sample \<Rightarrow> sample \<Rightarrow> bool" where
  "sample_le (Finite x) (Finite y) = (x \<le> y)"
| "sample_le NaN y = False"
| "sample_le (Finite x) NaN = False"

fun sample_positive :: "sample \<Rightarrow> bool" where
  "sample_positive (Finite x) = (0 < x)"
| "sample_positive NaN = False"

definition sample_sum :: "sample list \<Rightarrow> sample" where
  "sample_sum xs = foldr sample_plus xs (Finite 0)"

subsection \<open>Dilation\<close>

text \<open>
  \<open>np.convolve(a, v, 'same')\<close>. Entry \<open>k\<close> of the full convolution is the sum of the
  products \<open>v[j] * a[k - j]\<close> over the \<open>j\<close> for which both entries exist; mode \<open>'same'\<close>
  returns \<open>max(len a, len v)\<close> entries of it, starting at entry \<open>n - 1 - n div 2\<close> where
  \<open>n\<close> is the shorter length. Empty arguments raise \<open>ValueError\<close>.
\<close>

definition conv_full :: "sample list \<Rightarrow> sample list \<Rightarrow> nat \<Rightarrow> sample" where
  "conv_full a v k =
     sample_sum (map (\<lambda>j. sample_times (v ! j) (a ! (k - j)))
                     (filter (\<lambda>j. j \<le> k \<and> k - j < length a) [0..<length v]))"

definition np_convolve_same :: "sample list \<Rightarrow> sample list \<Rightarrow> error + sample list" where
  "np_convolve_same a v =
     (if a = [] \<or> v = [] then Inl ValueError
      else (let n = min (length a) (length v);
                shift = n - 1 - n div 2
            in Inr (map (\<lambda>k. conv_full a v (k + shift)) [0..<max (length a) (length v)])))"

text \<open>
  Line 239: a row of \<open>ctrl_signal\<close> is convolved with \<open>np.ones(dilator_width)\<close> and written
  back into the row, which raises \<open>ValueError\<close> when the result is longer than the row
  (a dilator wider than the recording).
\<close>

definition dilate_row :: "nat \<Rightarrow> sample list \<Rightarrow> error + sample list" where
  "dilate_row dilator_width row =
     (case np_convolve_same row (replicate dilator_width (Finite 1)) of
        Inl e \<Rightarrow> Inl e
      | Inr d \<Rightarrow> if length d = length row then Inr d else Inl ValueError)"

text \<open>Line 243: \<open>(ctrl_signal > 0).astype(float)\<close>.\<close>

definition binarize :: "sample list list \<Rightarrow> sample list list" where
  "binarize ctrl_signal =
     map (map (\<lambda>x. if sample_positive x then Finite 1 else Finite 0)) ctrl_signal"

subsection \<open>Mixing\<close>

text \<open>
  \<open>scipy.signal.hann(M, True)\<close>: the symmetric Hann window,
  \<open>0.5 - 0.5 * cos(2 * pi * n / (M - 1))\<close> for \<open>n = 0, ..., M - 1\<close>, and \<open>[1]\<close> for \<open>M = 1\<close>.
\<close>

definition hann :: "nat \<Rightarrow> real list" where
  "hann M = (if M = 1 then [1]
             else map (\<lambda>n. 0.5 - 0.5 * cos (2 * pi * real n / real (M - 1))) [0..<M])"

text \<open>
  Line 253, \<open>trans_win /= trans_win.sum()\<close>. When the sum is zero every entry of the window
  is zero, since no entry of a Hann window is negative (lemma \<open>hann_sum_zero\<close> below); each
  entry is then \<open>0 / 0\<close>, which is \<open>nan\<close>: numpy warns and raises nothing. Otherwise the
  entries are the exact quotients, which the floats of the program approximate; the facts
  proved below about the control signal read the window only where its sum is zero.
\<close>

definition normalized_hann :: "nat \<Rightarrow> sample list" where
  "normalized_hann M =
     (let trans_win = hann M;
          total = sum_list trans_win
      in if total = 0 then map (\<lambda>x. NaN) trans_win
         else map (\<lambda>x. Finite (x / total)) trans_win)"

text \<open>\<open>np.pad(row, pad_size, mode='edge')\<close> on a row that is not empty.\<close>

definition np_pad_edge :: "nat \<Rightarrow> 'a list \<Rightarrow> 'a list" where
  "np_pad_edge pad_size row = replicate pad_size (hd row) @ row @ replicate pad_size (last row)"

text \<open>
  Lines 252 to 270 for one row: the window is divided by its sum, the row is padded by
  \<open>transition_width / 2 + 1\<close> samples at both ends (\<open>np.pad\<close> raises \<open>ValueError\<close> on an
  empty row), convolved with the window (\<open>np.convolve\<close> raises \<open>ValueError\<close> on the empty
  window of width 0), and the padding is cut off (\<open>c[pad_size:-pad_size]\<close>).
\<close>

definition smooth_row :: "nat \<Rightarrow> sample list \<Rightarrow> error + sample list" where
  "smooth_row transition_width row =
     (let trans_win = normalized_hann transition_width;
          pad_size = transition_width div 2 + 1
      in if row = [] then Inl ValueError
         else (case np_convolve_same (np_pad_edge pad_size row) trans_win of
                 Inl e \<Rightarrow> Inl e
               | Inr c \<Rightarrow> Inr (drop pad_size (take (length c - pad_size) c))))"

text \<open>
  Lines 235 to 270 from the marks on: the marks are written into the float array
  \<open>ctrl_signal\<close>; then dilation of every row, binarization, smoothing of every row.
  Negative widths raise \<open>ValueError\<close> in \<open>np.ones\<close> and in \<open>hann\<close>.
\<close>

definition control_signal :: "matrix \<Rightarrow> int \<Rightarrow> int \<Rightarrow> error + sample list list" where
  "control_signal detected dilator_width transition_width =
     (if dilator_width < 0 \<or> transition_width < 0 then Inl ValueError
      else case collect (map (\<lambda>row. dilate_row (nat dilator_width) (map Finite row)) detected) of
        Inl e \<Rightarrow> Inl e
      | Inr dilated \<Rightarrow> collect (map (smooth_row (nat transition_width)) (binarize dilated)))"

text \<open>
  numpy's broadcasting of two arrays along one axis: equal lengths pair up, a length of one
  is repeated, anything else raises \<open>ValueError\<close>.
\<close>

definition np_broadcast :: "'a list \<Rightarrow> 'b list \<Rightarrow> error + ('a \<times> 'b) list" where
  "np_broadcast xs ys =
     (if length xs = length ys then Inr (zip xs ys)
      else if length xs = 1 then Inr (map (\<lambda>y. (hd xs, y)) ys)
      else if length ys = 1 then Inr (map (\<lambda>x. (x, hd ys)) xs)
      else Inl ValueError)"

text \<open>Line 274: \<open>S * (1 - ctrl_signal)\<close>.\<close>

definition mix :: "matrix \<Rightarrow> sample list list \<Rightarrow> error + sample list list" where
  "mix S ctrl_signal =
     (case np_broadcast S ctrl_signal of
        Inl e \<Rightarrow> Inl e
      | Inr row_pairs \<Rightarrow>
          collect (map (\<lambda>(s_row, c_row).
                     case np_broadcast s_row c_row of
                       Inl e \<Rightarrow> Inl e
                     | Inr cells \<Rightarrow>
                         Inr (map (\<lambda>(s, c). sample_times (Finite s) (sample_minus (Finite 1) c))
                                cells)) row_pairs))"

text \<open>The function \<open>lcf\<close> (lines 214 to 276).\<close>

definition lcf :: "matrix \<Rightarrow> matrix \<Rightarrow> real \<Rightarrow> real \<Rightarrow> real \<Rightarrow> real \<Rightarrow> error + sample list list" where
  "lcf S feat sfreq iqr_thresh dilator_width transition_width =
     (case control_signal (map (classify_row iqr_thresh) feat)
             (py_int (dilator_width * sfreq)) (py_int (transition_width * sfreq)) of
        Inl e \<Rightarrow> Inl e
      | Inr ctrl_signal \<Rightarrow> mix S ctrl_signal)"

section \<open>The model of \<open>reconstruct_signal\<close>\<close>

text \<open>
  The fields of the fitted decomposition that \<open>reconstruct_signal\<close> reads (\<open>mixing_matrix_\<close>,
  \<open>pca_components_\<close>, \<open>pca_mean_\<close>, \<open>pre_whitener_\<close>; the names lose their last
  underscore here). \<open>pca_mean\<close> has one entry per channel; \<open>pre_whitener\<close> is a column with
  one entry per channel, kept as the list of its entries.
\<close>

record ica =
  mixing_matrix :: matrix
  pca_components :: matrix
  pca_mean :: "real list"
  pre_whitener :: "real list"

text \<open>\<open>np.dot\<close> of two matrices; the inner dimensions must agree.\<close>

definition ncols :: "matrix \<Rightarrow> nat" where
  "ncols B = (case B of [] \<Rightarrow> 0 | row # _ \<Rightarrow> length row)"

definition np_dot :: "matrix \<Rightarrow> matrix \<Rightarrow> error + matrix" where
  "np_dot A B =
     (if list_all (\<lambda>row. length row = length B) A
      then Inr (map (\<lambda>row. map (\<lambda>t. \<Sum>k\<leftarrow>[0..<length B]. row ! k * B ! k ! t) [0..<ncols B]) A)
      else Inl ValueError)"

text \<open>
  \<open>data += column\<close> and \<open>data *= column\<close>: the column has one entry per row of \<open>data\<close>, or
  a single entry that is used for every row; the updated array keeps the shape of \<open>data\<close>.
\<close>

definition np_inplace_column :: "(real \<Rightarrow> real \<Rightarrow> real) \<Rightarrow> matrix \<Rightarrow> real list \<Rightarrow> error + matrix" where
  "np_inplace_column f data col =
     (if length col = length data then Inr (map (\<lambda>(row, c). map (\<lambda>x. f x c) row) (zip data col))
      else if length col = 1 then Inr (map (map (\<lambda>x. f x (hd col))) data)
      else Inl ValueError)"

text \<open>
  \<open>reconstruct_signal\<close> (lines 279 to 290). \<open>np.linalg.inv\<close> is a parameter of the model:
  a function from a matrix to its inverse or to an error.
\<close>

definition reconstruct_signal :: "(matrix \<Rightarrow> error + matrix) \<Rightarrow> matrix \<Rightarrow> ica \<Rightarrow> error + matrix" where
  "reconstruct_signal linalg_inv sources ica =
     (case np_dot (mixing_matrix ica) sources of
        Inl e \<Rightarrow> Inl e
      | Inr data1 \<Rightarrow>
          (case linalg_inv (pca_components ica) of
             Inl e \<Rightarrow> Inl e
           | Inr inv_pca \<Rightarrow>
               (case np_dot inv_pca data1 of
                  Inl e \<Rightarrow> Inl e
                | Inr data2 \<Rightarrow>
                    (case np_inplace_column (+) data2 (pca_mean ica) of
                       Inl e \<Rightarrow> Inl e
                     | Inr data3 \<Rightarrow> np_inplace_column (*) data3 (pre_whitener ica)))))"

section \<open>Facts about the segmentation\<close>

lemma np_where_iff: "idx \<in> set (np_where P xs) \<longleftrightarrow> idx < length xs \<and> P (xs ! idx)"
  by (auto simp: np_where_def)

lemma np_where_map: "np_where P (map f xs) = np_where (\<lambda>x. P (f x)) xs"
  unfolding np_where_def by (rule filter_cong) auto

lemma np_where_empty_iff: "np_where P xs = [] \<longleftrightarrow> (\<forall>x \<in> set xs. \<not> P x)"
  by (force simp: np_where_def filter_empty_conv in_set_conv_nth)




lemma int64_wraps: "int64 (9223372036854775807 + 1) = - 9223372036854775808"
  by (simp add: int64_def)

lemma float64_of_int:
  assumes "\<bar>k\<bar> < 2 ^ 53"
  shows "float64 (of_int k) = of_int k"
proof (cases "k = 0")
  case True
  then show ?thesis by (simp add: float64_def)
next
  case False
  define a where "a = \<bar>real_of_int k\<bar>"
  define e where "e = \<lfloor>log 2 a\<rfloor>"
  have a1: "1 \<le> a" using False by (simp add: a_def)
  have a2: "a < 2 ^ 53"
  proof -
    have "real_of_int \<bar>k\<bar> < real_of_int (2 ^ 53)" using assms by (simp only: of_int_less_iff)
    then show ?thesis by (simp add: a_def)
  qed
  have "0 \<le> log 2 a" using a1 by simp
  then have e0: "0 \<le> e" by (simp add: e_def)
  have p: "(2::real) powr 53 = 2 ^ 53" using powr_realpow [of 2 53] by simp
  have "a < 2 powr 53" using a2 unfolding p .
  then have "log 2 a < 53" using a1 by (simp add: log_less_iff)
  then have e1: "e \<le> 52" unfolding e_def by linarith
  define d where "d = nat (52 - e)"
  have ulp: "2 powi (e - 52) = 1 / (2::real) ^ d"
  proof (cases "e = 52")
    case True
    then show ?thesis by (simp add: d_def)
  next
    case False
    then have "e - 52 < 0" using e1 by simp
    then show ?thesis by (simp add: power_int_def d_def field_simps)
  qed
  have q: "real_of_int k / (1 / 2 ^ d) = of_int (k * 2 ^ d)" by simp
  show ?thesis
    unfolding float64_def Let_def a_def [symmetric] e_def [symmetric] ulp q
    using False by simp
qed

lemma float64_numeral:
  "numeral n < (9007199254740992::int) \<Longrightarrow> float64 (numeral n) = numeral n"
  using float64_of_int [of "numeral n"] by simp

lemma float64_neg_numeral:
  "numeral n < (9007199254740992::int) \<Longrightarrow> float64 (- numeral n) = - numeral n"
  using float64_of_int [of "- numeral n"] by simp

text \<open>
  The binary exponent of a number from the two powers of two around it, and two roundings:
  \<open>2 ^ 53 + 1\<close> lies halfway between two floats and becomes the even one, \<open>2 ^ 53\<close>; the
  largest 64-bit integer becomes \<open>2 ^ 63\<close>.
\<close>

lemma float64_exponent:
  assumes "2 powi e \<le> \<bar>x\<bar>" "\<bar>x\<bar> < 2 powi (e + 1)"
  shows "\<lfloor>log 2 \<bar>x\<bar>\<rfloor> = e"
proof -
  have pos: "0 < \<bar>x\<bar>"
  proof -
    have "(0::real) < 2 powi e" by simp
    then show ?thesis using assms(1) by linarith
  qed
  have a: "(2::real) powr real_of_int e = 2 powi e" by (simp add: powr_real_of_int')
  have b: "(2::real) powr real_of_int (e + 1) = 2 powi (e + 1)"
    using powr_real_of_int' [of 2 "e + 1"] by simp
  have "2 powr real_of_int e \<le> \<bar>x\<bar> \<and> \<bar>x\<bar> < 2 powr real_of_int (e + 1)"
    unfolding a b using assms by simp
  then show ?thesis
    using floor_log_eq_powr_iff [of "\<bar>x\<bar>" 2 e] pos by simp
qed

lemma float64_rounds_to_even: "float64 9007199254740993 = 9007199254740992"
proof -
  have e: "\<lfloor>log 2 \<bar>9007199254740993::real\<bar>\<rfloor> = 53"
    by (rule float64_exponent) (simp_all add: power_int_def)
  have q: "\<lfloor>9007199254740993 / (2::real)\<rfloor> = 4503599627370496" by simp
  show ?thesis
    unfolding float64_def Let_def e by (simp add: q)
qed

lemma float64_int64_max: "float64 9223372036854775807 = 9223372036854775808"
proof -
  have e: "\<lfloor>log 2 \<bar>9223372036854775807::real\<bar>\<rfloor> = 62"
    by (rule float64_exponent) (simp_all add: power_int_def)
  have u: "(2::real) powi (62 - 52) = 1024" by (simp add: power_int_def)
  have q: "\<lfloor>9223372036854775807 / (1024::real)\<rfloor> = 9007199254740991" by simp
  show ?thesis
    unfolding float64_def Let_def e u by (simp add: q)
qed


lemma integer_array_append:
  "integer_array (map IntNum ks @ xs) = map_option ((@) ks) (integer_array xs)"
  by (induction ks) (auto simp: option.map_comp comp_def option.map_ident)

text \<open>
  The loop over the \<open>REST_REWET\<close> events reads the offsets of the events and their number
  only, not the types of the other events.
\<close>

lemma five_seconds_before_plain:
  "idx + 1 < length evs \<Longrightarrow>
   five_seconds_before (map as_plain_event evs) samp_rate idx = five_seconds_before evs samp_rate idx"
  by (simp add: five_seconds_before_def as_plain_event_def)

lemma rest_loop_plain:
  "\<forall>idx \<in> set idxs. idx < length evs \<Longrightarrow>
   rest_loop (map as_plain_event evs) n_times samp_rate onsets i idxs offsets =
   rest_loop evs n_times samp_rate onsets i idxs offsets"
proof (induction idxs arbitrary: i offsets)
  case Nil
  then show ?case by simp
next
  case (Cons idx rest)
  have lt: "idx < length evs" using Cons.prems by simp
  have ih: "\<And>i offsets. rest_loop (map as_plain_event evs) n_times samp_rate onsets i rest offsets =
      rest_loop evs n_times samp_rate onsets i rest offsets"
    using Cons.IH Cons.prems by simp
  show ?case
  proof (cases "length evs = idx + 1")
    case True
    then show ?thesis by (simp add: ih)
  next
    case False
    then have "idx + 1 < length evs" using lt by simp
    then show ?thesis using False by (simp add: ih five_seconds_before_plain)
  qed
qed

lemma exclusions_rest:
  assumes "\<exists>e \<in> set evs. type e = ''REST_REWET''"
  shows "run_lcf_exclusions evs n_times samp_rate =
     (case integer_array
             (rest_loop evs n_times samp_rate
                (map (\<lambda>idx. eegoffset (evs ! idx)) (np_where (\<lambda>e. type e = ''REST_REWET'') evs)) 0
                (np_where (\<lambda>e. type e = ''REST_REWET'') evs)
                (map IntNum (session_offsets evs n_times))) of
        None \<Rightarrow> Inl IndexError
      | Some offsets \<Rightarrow>
          Inr (type (hd evs) = ''SESS_START'',
               sort (map (\<lambda>idx. eegoffset (evs ! idx)) (np_where (\<lambda>e. type e = ''REST_REWET'') evs)),
               sort offsets))"
proof -
  from assms have ne: "np_where (\<lambda>e. type e = ''REST_REWET'') evs \<noteq> []"
    by (simp add: np_where_empty_iff)
  from assms obtain e0 es where evs: "evs = e0 # es" by (cases evs) auto
  show ?thesis
    using ne unfolding run_lcf_exclusions_def evs
    by (simp add: Let_def session_offsets_def del: last.simps butlast.simps
        cong: option.case_cong)
qed

lemma as_plain_event_simps [simp]:
  "eegoffset (as_plain_event e) = eegoffset e"
  "type (as_plain_event e) = ''REST_REWET'' \<longleftrightarrow> type e = ''REST_REWET''"
  "type (as_plain_event e) = ''SESS_START'' \<longleftrightarrow> type e = ''SESS_START''"
  "type (as_plain_event e) = ''SESS_END'' \<longleftrightarrow> type e = ''SESS_END''"
  by (auto simp: as_plain_event_def)

lemma session_offsets_plain:
  "evs \<noteq> [] \<Longrightarrow> session_offsets (map as_plain_event evs) n_times = session_offsets evs n_times"
  by (simp add: session_offsets_def hd_map last_map)

lemma exclusions_plain:
  assumes "\<exists>e \<in> set evs. type e = ''REST_REWET''"
  shows "run_lcf_exclusions (map as_plain_event evs) n_times samp_rate =
         run_lcf_exclusions evs n_times samp_rate"
proof -
  from assms have ne: "evs \<noteq> []" by auto
  from assms have r: "\<exists>e \<in> set (map as_plain_event evs). type e = ''REST_REWET''"
    by auto
  have w: "np_where (\<lambda>e. type e = ''REST_REWET'') (map as_plain_event evs) =
           np_where (\<lambda>e. type e = ''REST_REWET'') evs"
    by (simp add: np_where_map)
  have a: "map (\<lambda>idx. eegoffset (map as_plain_event evs ! idx))
             (np_where (\<lambda>e. type e = ''REST_REWET'') evs) =
           map (\<lambda>idx. eegoffset (evs ! idx)) (np_where (\<lambda>e. type e = ''REST_REWET'') evs)"
    by (rule map_cong) (auto simp: np_where_iff)
  have i: "\<forall>idx \<in> set (np_where (\<lambda>e. type e = ''REST_REWET'') evs). idx < length evs"
    by (simp add: np_where_iff)
  have h: "(type (hd (map as_plain_event evs)) = ''SESS_START'') = (type (hd evs) = ''SESS_START'')"
    using ne by (simp add: hd_map)
  show ?thesis
    unfolding exclusions_rest [OF assms] exclusions_rest [OF r] w a
      rest_loop_plain [OF i] session_offsets_plain [OF ne] h ..
qed



lemma break_loop_props:
  assumes "break_loop evs bsi i idxs (on, off) = Inr (on', off')"
    and "\<forall>idx \<in> set idxs. idx < length evs"
    and "\<forall>j \<in> set bsi. j < length evs"
    and "length on = length off"
  shows "length on' = length off' \<and> set on \<subseteq> set on' \<and> set off \<subseteq> set off'
       \<and> set on' \<subseteq> set on \<union> eegoffset ` set evs
       \<and> set off' \<subseteq> set off \<union> eegoffset ` set evs"
  using assms
proof (induction idxs arbitrary: i on off)
  case Nil
  then show ?case by auto
next
  case (Cons idx rest)
  from Cons.prems(1) have lt: "i < length bsi"
    by (auto split: if_splits)
  with Cons.prems(1) have step: "break_loop evs bsi (Suc i) rest
      (on @ [eegoffset (evs ! idx)], off @ [eegoffset (evs ! (bsi ! i))]) = Inr (on', off')"
    by simp
  have m1: "evs ! idx \<in> set evs" using Cons.prems(2) by simp
  have m2: "evs ! (bsi ! i) \<in> set evs" using Cons.prems(3) lt by simp
  have "length (on @ [eegoffset (evs ! idx)]) = length (off @ [eegoffset (evs ! (bsi ! i))])"
    using Cons.prems(4) by simp
  from Cons.IH [OF step _ Cons.prems(3) this] Cons.prems(2)
  show ?case using m1 m2 by auto
qed

lemma sort_nonempty:
  fixes xs :: "int list"
  shows "m \<in> set xs \<Longrightarrow> sort xs \<noteq> []"
proof
  assume "m \<in> set xs" "sort xs = []"
  then have "set (sort xs) = {}" by simp
  then show False using \<open>m \<in> set xs\<close> by simp
qed

lemma sorted_le_last:
  fixes xs :: "int list"
  shows "sorted xs \<Longrightarrow> x \<in> set xs \<Longrightarrow> x \<le> last xs"
  by (induction xs) auto

lemma sorted_hd_le:
  fixes xs :: "int list"
  shows "sorted xs \<Longrightarrow> x \<in> set xs \<Longrightarrow> hd xs \<le> x"
  by (induction xs) auto

lemma hd_sort_least:
  fixes xs :: "int list"
  assumes "m \<in> set xs" "\<forall>x \<in> set xs. m \<le> x"
  shows "hd (sort xs) = m"
proof -
  have ne: "sort xs \<noteq> []" by (rule sort_nonempty [OF assms(1)])
  have "hd (sort xs) \<le> m"
    using sorted_hd_le [of "sort xs" m] assms(1) by simp
  moreover have "hd (sort xs) \<in> set xs" using hd_in_set [OF ne] by simp
  ultimately show ?thesis using assms(2) by force
qed

lemma last_sort_greatest:
  fixes xs :: "int list"
  assumes "m \<in> set xs" "\<forall>x \<in> set xs. x \<le> m"
  shows "last (sort xs) = m"
proof -
  have ne: "sort xs \<noteq> []" by (rule sort_nonempty [OF assms(1)])
  have "m \<le> last (sort xs)"
    using sorted_le_last [of "sort xs" m] assms(1) by simp
  moreover have "last (sort xs) \<in> set xs" using last_in_set [OF ne] by simp
  ultimately show ?thesis using assms(2) by force
qed

lemma times_take_in_range:
  "\<forall>k \<in> set ks. 0 \<le> k \<and> k < n_times \<Longrightarrow> times_take n_times ks = Inr ks"
  by (induction ks) (auto simp: times_index_def)

lemma exclusions_no_rest:
  assumes nr: "\<forall>e \<in> set evs. type e \<noteq> ''REST_REWET''"
    and res: "run_lcf_exclusions evs n_times samp_rate = Inr (s, onsets, offsets)"
  shows "\<exists>on off. onsets = sort on \<and> offsets = sort off \<and> length on = length off
       \<and> set (session_onsets evs) \<subseteq> set on \<and> set (session_offsets evs n_times) \<subseteq> set off
       \<and> set on \<subseteq> {0} \<union> eegoffset ` set evs
       \<and> set off \<subseteq> {n_times - 1} \<union> eegoffset ` set evs"
proof -
  from res obtain e0 es where evs: "evs = e0 # es"
    by (cases evs) (auto simp: run_lcf_exclusions_def)
  have ne: "evs \<noteq> []" using evs by simp
  have w: "np_where (\<lambda>e. type e = ''REST_REWET'') evs = []"
    using nr by (simp add: np_where_empty_iff)
  define on1 where "on1 = session_onsets evs"
  define off1 where "off1 = session_offsets evs n_times"
  define bs where "bs = np_where (\<lambda>e. type e = ''BREAK_START'') (butlast evs)"
  define bp where "bp = np_where (\<lambda>e. type e = ''BREAK_STOP'') (tl evs)"
  define on3 where "on3 = on1 @ (if type e0 = ''BREAK_STOP'' then [0] else [])
      @ (if type (last evs) = ''BREAK_START'' then [eegoffset (last evs)] else [])"
  define off3 where "off3 = off1 @ (if type e0 = ''BREAK_STOP'' then [eegoffset e0] else [])
      @ (if type (last evs) = ''BREAK_START'' then [n_times - 1] else [])"
  have l1: "length on1 = length off1"
    by (simp add: on1_def off1_def session_onsets_def session_offsets_def)
  have l3: "length on3 = length off3"
    using l1 by (simp add: on3_def off3_def)
  have lastmem: "last evs \<in> set evs" using ne by simp
  have e0mem: "e0 \<in> set evs" using evs by simp
  have s1: "set on1 \<subseteq> {0} \<union> eegoffset ` set evs"
    using lastmem by (auto simp: on1_def session_onsets_def)
  have t1: "set off1 \<subseteq> {n_times - 1} \<union> eegoffset ` set evs"
    using ne by (auto simp: off1_def session_offsets_def)
  have s3: "set on3 \<subseteq> {0} \<union> eegoffset ` set evs"
    using s1 lastmem by (auto simp: on3_def)
  have t3: "set off3 \<subseteq> {n_times - 1} \<union> eegoffset ` set evs"
    using t1 e0mem by (auto simp: off3_def)
  have unfolded: "run_lcf_exclusions evs n_times samp_rate =
     (if bs \<noteq> []
      then (case break_loop evs bp 0 bs (on3, off3) of
              Inl e \<Rightarrow> Inl e
            | Inr (onsets, offsets) \<Rightarrow> Inr (type e0 = ''SESS_START'', sort onsets, sort offsets))
      else Inr (type e0 = ''SESS_START'', sort on1, sort off1))"
    using w unfolding run_lcf_exclusions_def on1_def off1_def on3_def off3_def bs_def bp_def
        session_onsets_def session_offsets_def evs
    by (simp add: Let_def del: last.simps butlast.simps)
  show ?thesis
  proof (cases "bs = []")
    case True
    with unfolded res have "onsets = sort on1" "offsets = sort off1" by auto
    then show ?thesis using l1 s1 t1 on1_def off1_def by blast
  next
    case False
    with unfolded res obtain on off where
      bl: "break_loop evs bp 0 bs (on3, off3) = Inr (on, off)"
      and eq: "onsets = sort on" "offsets = sort off"
      by (auto split: sum.splits)
    have i1: "\<forall>idx \<in> set bs. idx < length evs"
      by (auto simp: bs_def np_where_iff)
    have i2: "\<forall>j \<in> set bp. j < length evs"
      by (auto simp: bp_def np_where_iff)
    from break_loop_props [OF bl i1 i2 l3]
    have p: "length on = length off" "set on3 \<subseteq> set on" "set off3 \<subseteq> set off"
      "set on \<subseteq> set on3 \<union> eegoffset ` set evs" "set off \<subseteq> set off3 \<union> eegoffset ` set evs"
      by auto
    have "set on1 \<subseteq> set on" using p(2) by (auto simp: on3_def)
    moreover have "set off1 \<subseteq> set off" using p(3) by (auto simp: off3_def)
    moreover have "set on \<subseteq> {0} \<union> eegoffset ` set evs" using p(4) s3 by blast
    moreover have "set off \<subseteq> {n_times - 1} \<union> eegoffset ` set evs" using p(5) t3 by blast
    ultimately show ?thesis using eq p(1) on1_def off1_def by blast
  qed
qed

lemma sorted_events_bounds:
  assumes "sorted (map eegoffset evs)" "e \<in> set evs"
  shows "eegoffset (hd evs) \<le> eegoffset e \<and> eegoffset e \<le> eegoffset (last evs)"
proof -
  have ne: "evs \<noteq> []" using assms(2) by auto
  have m: "eegoffset e \<in> set (map eegoffset evs)" using assms(2) by simp
  have "hd (map eegoffset evs) \<le> eegoffset e"
    by (rule sorted_hd_le [OF assms(1) m])
  moreover have "eegoffset e \<le> last (map eegoffset evs)"
    by (rule sorted_le_last [OF assms(1) m])
  ultimately show ?thesis using ne by (simp add: hd_map last_map)
qed

lemma phase_samples_length:
  "length (phase_samples p) = nat (last_sample p - first_sample p + 1)"
  by (simp add: phase_samples_def)

subsection \<open>Segmentation without break skipping\<close>

text \<open>
  C9. With \<open>skip_breaks = False\<close> the recording is not annotated (no excluded period), there
  is exactly one phase, it holds every sample of the recording \<open>[0, n_times)\<close>, and exactly
  one decomposition is fitted, on that phase.
\<close>

theorem C9_no_skip_single_phase:
  "run_lcf_segment evs n_times samp_rate False =
     Inr \<lparr>annotations = [],
          eeg_list = [\<lparr>first_sample = 0, last_sample = n_times - 1\<rparr>],
          ica_list = [(\<lparr>first_sample = 0, last_sample = n_times - 1\<rparr>, False)]\<rparr>
   \<and> set (phase_samples \<lparr>first_sample = 0, last_sample = n_times - 1\<rparr>) = {0..<n_times}
   \<and> concatenate_raws [\<lparr>first_sample = 0, last_sample = n_times - 1\<rparr>] = Inr [0..n_times - 1]
   \<and> int (length [0..n_times - 1]) = max 0 n_times"
  by (auto simp: run_lcf_segment_def phase_samples_def concatenate_raws_def Let_def)

subsection \<open>Phases with break skipping\<close>

text \<open>
  C1. The claim is that with \<open>skip_breaks = True\<close> the phases partition
  \<open>[0, n_times)\<close> and that the concatenated phases have \<open>n_times\<close> samples. The loop
  makes one phase per entry of \<open>offsets\<close> and none after the last entry. For the events
  \<open>BREAK_START\<close> at 3000, \<open>BREAK_STOP\<close> at 4000 and one more event at 8000 in a recording of
  10000 samples, the only phase is samples 0 to 3000: the concatenation has 3001 samples and
  sample 3001 is in no phase. For a complete session (\<open>SESS_START\<close> first, \<open>SESS_END\<close> at the
  last sample) the loop raises \<open>IndexError\<close>: \<open>start\<close> is assigned a time
  (\<open>eeg.times[stop + 1]\<close>) and then used as an index, and \<open>stop + 1\<close> is out of range
  for the last offset.
\<close>

theorem C1_samples_after_last_break_dropped:
  "run_lcf_segment
     [\<lparr>type = ''BREAK_START'', eegoffset = 3000\<rparr>, \<lparr>type = ''BREAK_STOP'', eegoffset = 4000\<rparr>,
      \<lparr>type = ''WORD'', eegoffset = 8000\<rparr>] 10000 100 True
     = Inr \<lparr>annotations = [(3000, 3000)],
            eeg_list = [\<lparr>first_sample = 0, last_sample = 3000\<rparr>],
            ica_list = [(\<lparr>first_sample = 0, last_sample = 3000\<rparr>, True)]\<rparr>
   \<and> concatenate_raws [\<lparr>first_sample = 0, last_sample = 3000\<rparr>]
     = Inr (phase_samples \<lparr>first_sample = 0, last_sample = 3000\<rparr>)
   \<and> length (phase_samples \<lparr>first_sample = 0, last_sample = 3000\<rparr>) = 3001
   \<and> 3001 \<notin> set (phase_samples \<lparr>first_sample = 0, last_sample = 3000\<rparr>)
   \<and> run_lcf_segment
     [\<lparr>type = ''SESS_START'', eegoffset = 0\<rparr>, \<lparr>type = ''BREAK_START'', eegoffset = 3000\<rparr>,
      \<lparr>type = ''BREAK_STOP'', eegoffset = 4000\<rparr>, \<lparr>type = ''SESS_END'', eegoffset = 9999\<rparr>]
     10000 100 True = Inl IndexError"
proof -
  have a: "run_lcf_segment
     [\<lparr>type = ''BREAK_START'', eegoffset = 3000\<rparr>, \<lparr>type = ''BREAK_STOP'', eegoffset = 4000\<rparr>,
      \<lparr>type = ''WORD'', eegoffset = 8000\<rparr>] 10000 100 True
     = Inr \<lparr>annotations = [(3000, 3000)],
            eeg_list = [\<lparr>first_sample = 0, last_sample = 3000\<rparr>],
            ica_list = [(\<lparr>first_sample = 0, last_sample = 3000\<rparr>, True)]\<rparr>"
    by (simp add: run_lcf_segment_def run_lcf_exclusions_def np_where_def run_lcf_annotate_def
        times_index_def)
  have b: "concatenate_raws [\<lparr>first_sample = 0, last_sample = 3000\<rparr>]
     = Inr (phase_samples \<lparr>first_sample = 0, last_sample = 3000\<rparr>)"
    by (simp add: concatenate_raws_def)
  have c: "length (phase_samples \<lparr>first_sample = 0, last_sample = 3000\<rparr>) = 3001"
    by (simp add: phase_samples_length)
  have d: "3001 \<notin> set (phase_samples \<lparr>first_sample = 0, last_sample = 3000\<rparr>)"
    by (simp add: phase_samples_def del: upto.simps upto_rec_numeral)
  have e: "run_lcf_segment
     [\<lparr>type = ''SESS_START'', eegoffset = 0\<rparr>, \<lparr>type = ''BREAK_START'', eegoffset = 3000\<rparr>,
      \<lparr>type = ''BREAK_STOP'', eegoffset = 4000\<rparr>, \<lparr>type = ''SESS_END'', eegoffset = 9999\<rparr>]
     10000 100 True = Inl IndexError"
    by (simp add: run_lcf_segment_def run_lcf_exclusions_def np_where_def run_lcf_annotate_def
        times_index_def)
  show ?thesis using a b c d e by (intro conjI)
qed

subsection \<open>The single-marker convention\<close>




text \<open>
  What the amended C2 leaves out. A break of five seconds or more that is not the last
  event gets a float as its end, and \<open>eeg.times[offsets]\<close> refuses the array of floats:
  the segmentation raises \<open>IndexError\<close> and no excluded period is set.
\<close>

lemma rest_float_end_refused:
  "run_lcf_segment
     [\<lparr>type = ''REST_REWET'', eegoffset = 1000\<rparr>, \<lparr>type = ''WORD'', eegoffset = 5000\<rparr>]
     10000 100 True = Inl IndexError"
proof -
  let ?evs = "[\<lparr>type = ''REST_REWET'', eegoffset = 1000\<rparr>, \<lparr>type = ''WORD'', eegoffset = 5000\<rparr>]"
  have w: "np_where (\<lambda>e. type e = ''REST_REWET'') ?evs = [0]"
    by (simp add: np_where_def)
  have f: "five_seconds_before ?evs 100 0 = 4500"
    by (simp add: five_seconds_before_def float64_numeral)
  have "run_lcf_exclusions ?evs 10000 100 = Inl IndexError"
    by (simp add: run_lcf_exclusions_def w f float64_numeral)
  then show ?thesis by (simp add: run_lcf_segment_def)
qed

text \<open>
  The clamp is computed in 64 bits. For a break that starts at the largest 64-bit integer
  and is followed by an event at offset 0, the computed end \<open>-500\<close> precedes the start, and
  the end becomes the start plus one, wrapped around to the smallest 64-bit integer.
\<close>

lemma rest_clamp_wraps:
  "run_lcf_exclusions
     [\<lparr>type = ''REST_REWET'', eegoffset = 9223372036854775807\<rparr>, \<lparr>type = ''WORD'', eegoffset = 0\<rparr>]
     10000 100 = Inr (False, [9223372036854775807], [- 9223372036854775808])"
proof -
  let ?evs = "[\<lparr>type = ''REST_REWET'', eegoffset = 9223372036854775807\<rparr>,
      \<lparr>type = ''WORD'', eegoffset = 0\<rparr>]"
  have w: "np_where (\<lambda>e. type e = ''REST_REWET'') ?evs = [0]"
    by (simp add: np_where_def)
  have z: "float64 0 = 0" by (simp add: float64_def)
  have f: "five_seconds_before ?evs 100 0 = - 500"
    by (simp add: five_seconds_before_def float64_numeral float64_neg_numeral z)
  show ?thesis
    by (simp add: run_lcf_exclusions_def w f float64_int64_max int64_def)
qed

subsection \<open>Session start and session end\<close>

text \<open>
  C3, as stated, fails: the period excluded after the session ends at \<open>n_times - 1\<close>, not
  at \<open>n_times\<close>. With \<open>SESS_START\<close> at 100 and \<open>SESS_END\<close> at 9000 in a recording of 10000
  samples the annotations are \<open>(0, 100)\<close> and \<open>(9000, 9999)\<close>.
\<close>

theorem C3_trailing_end_counterexample:
  "run_lcf_exclusions
     [\<lparr>type = ''SESS_START'', eegoffset = 100\<rparr>, \<lparr>type = ''WORD'', eegoffset = 3000\<rparr>,
      \<lparr>type = ''SESS_END'', eegoffset = 9000\<rparr>] 10000 100 = Inr (True, [0, 9000], [100, 9999])
   \<and> run_lcf_annotate 10000 [0, 9000] [100, 9999] = Inr [(0, 100), (9000, 9999)]
   \<and> (9000, 10000) \<notin> set [(0, 100), (9000, 9999::int)]"
  by (simp add: run_lcf_exclusions_def np_where_def run_lcf_annotate_def times_index_def)

text \<open>
  C3, amended. Let no event be a \<open>REST_REWET\<close>, let the events be ordered by offset with
  offsets inside the recording, and let the computation of the excluded periods succeed.
  Then \<open>onsets\<close> and \<open>offsets\<close> have the same length; if the first event is \<open>SESS_START\<close>
  the recording is annotated with the pairs of \<open>onsets\<close> and \<open>offsets\<close> and the first
  pair is \<open>(0, offset of the first event)\<close>; if the last event is \<open>SESS_END\<close> the
  recording is annotated likewise and the last pair is
  \<open>(offset of the last event, n_times - 1)\<close>.
\<close>

theorem C3_session_bounds_excluded:
  assumes nr: "\<forall>e \<in> set evs. type e \<noteq> ''REST_REWET''"
    and ord: "sorted (map eegoffset evs)"
    and rng: "\<forall>e \<in> set evs. 0 \<le> eegoffset e \<and> eegoffset e < n_times"
    and res: "run_lcf_exclusions evs n_times samp_rate = Inr (s, onsets, offsets)"
  shows "length onsets = length offsets
       \<and> (type (hd evs) = ''SESS_START'' \<longrightarrow>
            run_lcf_annotate n_times onsets offsets = Inr (zip onsets offsets)
            \<and> hd (zip onsets offsets) = (0, eegoffset (hd evs)))
       \<and> (type (last evs) = ''SESS_END'' \<longrightarrow>
            run_lcf_annotate n_times onsets offsets = Inr (zip onsets offsets)
            \<and> last (zip onsets offsets) = (eegoffset (last evs), n_times - 1))"
proof -
  from exclusions_no_rest [OF nr res] obtain on off where
    eq: "onsets = sort on" "offsets = sort off" and len: "length on = length off"
    and sub1: "set (session_onsets evs) \<subseteq> set on"
    and sub2: "set (session_offsets evs n_times) \<subseteq> set off"
    and sup1: "set on \<subseteq> {0} \<union> eegoffset ` set evs"
    and sup2: "set off \<subseteq> {n_times - 1} \<union> eegoffset ` set evs"
    by blast
  from res have ne: "evs \<noteq> []" by (auto simp: run_lcf_exclusions_def)
  have hdm: "hd evs \<in> set evs" and lam: "last evs \<in> set evs" using ne by auto
  have n1: "0 \<le> n_times - 1" using rng hdm by force
  have on_rng: "\<forall>k \<in> set on. 0 \<le> k \<and> k < n_times"
    using sup1 rng n1 by auto
  have off_rng: "\<forall>k \<in> set off. 0 \<le> k \<and> k < n_times"
    using sup2 rng n1 by auto
  have on_hi: "\<forall>k \<in> set on. k \<le> eegoffset (last evs)"
    using sup1 sorted_events_bounds [OF ord] rng lam by fastforce
  have off_lo: "\<forall>k \<in> set off. eegoffset (hd evs) \<le> k"
    using sup2 sorted_events_bounds [OF ord] rng hdm by fastforce
  have off_hi: "\<forall>k \<in> set off. k \<le> n_times - 1"
    using off_rng by auto
  have on_lo: "\<forall>k \<in> set on. 0 \<le> k" using on_rng by auto
  have leneq: "length onsets = length offsets" using len eq by simp
  have ann: "onsets \<noteq> [] \<Longrightarrow> run_lcf_annotate n_times onsets offsets = Inr (zip onsets offsets)"
  proof -
    assume a: "onsets \<noteq> []"
    then have b: "offsets \<noteq> []" using leneq by auto
    have "times_take n_times onsets = Inr onsets"
      by (rule times_take_in_range) (use on_rng eq in simp)
    moreover have "times_take n_times offsets = Inr offsets"
      by (rule times_take_in_range) (use off_rng eq in simp)
    ultimately show ?thesis using a b leneq by (simp add: run_lcf_annotate_def)
  qed
  have lead: "hd (zip onsets offsets) = (0, eegoffset (hd evs)) \<and> onsets \<noteq> []"
    if st: "type (hd evs) = ''SESS_START''"
  proof -
    have a: "0 \<in> set on" using sub1 st by (auto simp: session_onsets_def)
    have b: "eegoffset (hd evs) \<in> set off" using sub2 st by (auto simp: session_offsets_def)
    have "hd onsets = 0" unfolding eq by (rule hd_sort_least [OF a on_lo])
    moreover have "hd offsets = eegoffset (hd evs)" unfolding eq by (rule hd_sort_least [OF b off_lo])
    moreover have "onsets \<noteq> []" unfolding eq by (rule sort_nonempty [OF a])
    moreover have "offsets \<noteq> []" unfolding eq by (rule sort_nonempty [OF b])
    ultimately show ?thesis by (simp add: hd_zip)
  qed
  have trail: "last (zip onsets offsets) = (eegoffset (last evs), n_times - 1) \<and> onsets \<noteq> []"
    if en: "type (last evs) = ''SESS_END''"
  proof -
    have a: "eegoffset (last evs) \<in> set on" using sub1 en by (auto simp: session_onsets_def)
    have b: "n_times - 1 \<in> set off" using sub2 en by (auto simp: session_offsets_def)
    have "last onsets = eegoffset (last evs)" unfolding eq by (rule last_sort_greatest [OF a on_hi])
    moreover have "last offsets = n_times - 1" unfolding eq by (rule last_sort_greatest [OF b off_hi])
    moreover have "onsets \<noteq> []" unfolding eq by (rule sort_nonempty [OF a])
    moreover have "offsets \<noteq> []" unfolding eq by (rule sort_nonempty [OF b])
    ultimately show ?thesis using leneq by (simp add: last_zip)
  qed
  show ?thesis using leneq lead trail ann by blast
qed

text \<open>The amended C3 at a session with one pair of break markers.\<close>

theorem C3_session_bounds_excluded_witness:
  "run_lcf_exclusions
     [\<lparr>type = ''SESS_START'', eegoffset = 100\<rparr>, \<lparr>type = ''BREAK_START'', eegoffset = 3000\<rparr>,
      \<lparr>type = ''BREAK_STOP'', eegoffset = 4000\<rparr>, \<lparr>type = ''SESS_END'', eegoffset = 9000\<rparr>]
     10000 100 = Inr (True, [0, 3000, 9000], [100, 3000, 9999])
   \<and> run_lcf_annotate 10000 [0, 3000, 9000] [100, 3000, 9999] = Inr [(0, 100), (3000, 3000), (9000, 9999)]"
proof -
  let ?evs = "[\<lparr>type = ''SESS_START'', eegoffset = 100\<rparr>, \<lparr>type = ''BREAK_START'', eegoffset = 3000\<rparr>,
      \<lparr>type = ''BREAK_STOP'', eegoffset = 4000\<rparr>, \<lparr>type = ''SESS_END'', eegoffset = 9000\<rparr>]"
  have r: "run_lcf_exclusions ?evs 10000 100 = Inr (True, [0, 3000, 9000], [100, 3000, 9999])"
    by (simp add: run_lcf_exclusions_def np_where_def)
  have a: "\<forall>e \<in> set ?evs. type e \<noteq> ''REST_REWET''" by simp
  have b: "sorted (map eegoffset ?evs)" by simp
  have c: "\<forall>e \<in> set ?evs. 0 \<le> eegoffset e \<and> eegoffset e < 10000" by simp
  from C3_session_bounds_excluded [OF a b c r] show ?thesis using r by simp
qed

subsection \<open>Both conventions at once\<close>

text \<open>
  C4, as stated, fails: a recording with a \<open>REST_REWET\<close> event and a pair
  \<open>BREAK_START\<close>, \<open>BREAK_STOP\<close> is segmented without any error. The break that starts at
  1000 is followed by the next event two seconds later, so its end is the integer 1001.
\<close>

theorem C4_mixed_markers_counterexample:
  "run_lcf_segment
     [\<lparr>type = ''REST_REWET'', eegoffset = 1000\<rparr>, \<lparr>type = ''BREAK_START'', eegoffset = 1200\<rparr>,
      \<lparr>type = ''BREAK_STOP'', eegoffset = 4000\<rparr>, \<lparr>type = ''WORD'', eegoffset = 8000\<rparr>] 10000 100 True
   = Inr \<lparr>annotations = [(1000, 1001)],
          eeg_list = [\<lparr>first_sample = 0, last_sample = 1001\<rparr>],
          ica_list = [(\<lparr>first_sample = 0, last_sample = 1001\<rparr>, True)]\<rparr>"
proof -
  let ?evs = "[\<lparr>type = ''REST_REWET'', eegoffset = 1000\<rparr>, \<lparr>type = ''BREAK_START'', eegoffset = 1200\<rparr>,
      \<lparr>type = ''BREAK_STOP'', eegoffset = 4000\<rparr>, \<lparr>type = ''WORD'', eegoffset = 8000\<rparr>]"
  have w: "np_where (\<lambda>e. type e = ''REST_REWET'') ?evs = [0]"
    by (simp add: np_where_def)
  have f: "five_seconds_before ?evs 100 0 = 700"
    by (simp add: five_seconds_before_def float64_numeral)
  have r: "run_lcf_exclusions ?evs 10000 100 = Inr (False, [1000], [1001])"
    by (simp add: run_lcf_exclusions_def w f float64_numeral int64_def)
  show ?thesis
    by (simp add: run_lcf_segment_def r run_lcf_annotate_def times_index_def)
qed

text \<open>
  C4, amended. When a \<open>REST_REWET\<close> event is present, no conflict between the two
  conventions is detected: the segmentation has the outcome, the same result or the same
  error, that it has when \<open>BREAK_START\<close> and \<open>BREAK_STOP\<close> are ordinary events. The
  single-marker convention takes precedence.
\<close>

theorem C4_rest_rewet_takes_precedence:
  assumes "\<exists>e \<in> set evs. type e = ''REST_REWET''"
  shows "run_lcf_segment (map as_plain_event evs) n_times samp_rate skip_breaks =
         run_lcf_segment evs n_times samp_rate skip_breaks"
  using exclusions_plain [OF assms] by (simp add: run_lcf_segment_def)

text \<open>The amended C4 at the recording of the counterexample, where the outcome is a result.\<close>

theorem C4_rest_rewet_takes_precedence_witness:
  "run_lcf_segment (map as_plain_event
     [\<lparr>type = ''REST_REWET'', eegoffset = 1000\<rparr>, \<lparr>type = ''BREAK_START'', eegoffset = 1200\<rparr>,
      \<lparr>type = ''BREAK_STOP'', eegoffset = 4000\<rparr>, \<lparr>type = ''WORD'', eegoffset = 8000\<rparr>]) 10000 100 True
   = Inr \<lparr>annotations = [(1000, 1001)],
          eeg_list = [\<lparr>first_sample = 0, last_sample = 1001\<rparr>],
          ica_list = [(\<lparr>first_sample = 0, last_sample = 1001\<rparr>, True)]\<rparr>"
proof -
  let ?evs = "[\<lparr>type = ''REST_REWET'', eegoffset = 1000\<rparr>, \<lparr>type = ''BREAK_START'', eegoffset = 1200\<rparr>,
      \<lparr>type = ''BREAK_STOP'', eegoffset = 4000\<rparr>, \<lparr>type = ''WORD'', eegoffset = 8000\<rparr>]"
  have h: "\<exists>e \<in> set ?evs. type e = ''REST_REWET''" by simp
  have w: "np_where (\<lambda>e. type e = ''REST_REWET'') ?evs = [0]"
    by (simp add: np_where_def)
  have f: "five_seconds_before ?evs 100 0 = 700"
    by (simp add: five_seconds_before_def float64_numeral)
  have r: "run_lcf_exclusions ?evs 10000 100 = Inr (False, [1000], [1001])"
    by (simp add: run_lcf_exclusions_def w f float64_numeral int64_def)
  have s: "run_lcf_segment ?evs 10000 100 True
      = Inr \<lparr>annotations = [(1000, 1001)],
             eeg_list = [\<lparr>first_sample = 0, last_sample = 1001\<rparr>],
             ica_list = [(\<lparr>first_sample = 0, last_sample = 1001\<rparr>, True)]\<rparr>"
    by (simp add: run_lcf_segment_def r run_lcf_annotate_def times_index_def)
  from C4_rest_rewet_takes_precedence [OF h, of 10000 100 True] s show ?thesis by simp
qed

section \<open>Facts about \<open>lcf\<close>\<close>



subsection \<open>Classification\<close>



subsection \<open>The transition window of two samples\<close>

text \<open>
  No entry of a Hann window is negative, so a window whose sum is zero has zero entries
  only: the division of line 253 is then \<open>0 / 0\<close> at every entry.
\<close>

lemma hann_nonneg: "x \<in> set (hann M) \<Longrightarrow> 0 \<le> x"
proof -
  assume "x \<in> set (hann M)"
  then consider "x = 1" | n where "x = 0.5 - 0.5 * cos (2 * pi * real n / real (M - 1))"
    by (auto simp: hann_def split: if_splits)
  then show ?thesis
  proof cases
    case 1 then show ?thesis by simp
  next
    case 2
    have "cos (2 * pi * real n / real (M - 1)) \<le> 1" by (rule cos_le_one)
    then show ?thesis using 2 by simp
  qed
qed

lemma hann_sum_zero: "sum_list (hann M) = 0 \<Longrightarrow> \<forall>x \<in> set (hann M). x = 0"
  using sum_list_nonneg_eq_0_iff [of "hann M"] hann_nonneg by blast

text \<open>
  The window of two samples is \<open>[0, 0]\<close>. Divided by its sum it is \<open>[nan, nan]\<close>, and the
  convolution with it is \<open>nan\<close> everywhere: for every row that is not empty, the control
  signal of the row is \<open>nan\<close> at every sample.
\<close>

lemma hann_2: "hann 2 = [0, 0]"
  by (simp add: hann_def upt_rec)

lemma normalized_hann_2: "normalized_hann 2 = [NaN, NaN]"
  by (simp add: normalized_hann_def hann_2)

lemma conv_full_nan: "k < length a \<Longrightarrow> conv_full a [NaN, NaN] k = NaN"
  by (simp add: conv_full_def sample_sum_def upt_rec)

lemma smooth_row_width_2:
  assumes "row \<noteq> []"
  shows "smooth_row 2 row = Inr (replicate (length row) NaN)"
proof -
  define padded where "padded = np_pad_edge 2 row"
  have len: "length padded = length row + 4" by (simp add: padded_def np_pad_edge_def)
  have ne: "padded \<noteq> []" using len by auto
  have "map (\<lambda>k. conv_full padded [NaN, NaN] (k + 0)) [0..<length row + 4] =
        map (\<lambda>k. NaN) [0..<length row + 4]"
    by (rule map_cong) (simp_all add: conv_full_nan len)
  then have conv: "np_convolve_same padded [NaN, NaN] = Inr (replicate (length row + 4) NaN)"
    using ne len by (simp add: np_convolve_same_def map_replicate_const)
  have p: "(2::nat) div 2 + 1 = 2" by simp
  show ?thesis
    unfolding smooth_row_def Let_def normalized_hann_2 p padded_def [symmetric] conv
    using assms by simp
qed

lemma dilate_row_zero: "dilate_row 2 [Finite 0, Finite 0, Finite 0, Finite 0]
    = Inr [Finite 0, Finite 0, Finite 0, Finite 0]"
  by (simp add: dilate_row_def np_convolve_same_def conv_full_def sample_sum_def upt_rec
      numeral_2_eq_2)

lemma dilate_row_mark: "dilate_row 2 [Finite 0, Finite 0, Finite 0, Finite 0, Finite 1]
    = Inr [Finite 0, Finite 0, Finite 0, Finite 0, Finite 1]"
  by (simp add: dilate_row_def np_convolve_same_def conv_full_def sample_sum_def upt_rec
      numeral_2_eq_2)

lemma control_signal_zero: "control_signal [[0, 0, 0, 0]] 2 2 = Inr [[NaN, NaN, NaN, NaN]]"
proof -
  have s: "smooth_row 2 [Finite 0, Finite 0, Finite 0, Finite 0] = Inr [NaN, NaN, NaN, NaN]"
    using smooth_row_width_2 [of "[Finite 0, Finite 0, Finite 0, Finite 0]"]
    by (simp add: numeral_eq_Suc)
  show ?thesis by (simp add: control_signal_def dilate_row_zero binarize_def s)
qed

lemma control_signal_mark: "control_signal [[0, 0, 0, 0, 1]] 2 2 = Inr [[NaN, NaN, NaN, NaN, NaN]]"
proof -
  have s: "smooth_row 2 [Finite 0, Finite 0, Finite 0, Finite 0, Finite 1]
      = Inr [NaN, NaN, NaN, NaN, NaN]"
    using smooth_row_width_2 [of "[Finite 0, Finite 0, Finite 0, Finite 0, Finite 1]"]
    by (simp add: numeral_eq_Suc)
  show ?thesis by (simp add: control_signal_def dilate_row_mark binarize_def s)
qed

lemma width_2: "py_int (0.005 * 500) = 2"
  by (simp add: py_int_def)

lemma classify_row_example: "classify_row 3 [0, 1, 2, 3, 100] = [0, 0, 0, 0, 1]"
  by (simp add: classify_row_def percentile_def Let_def)

lemma classify_row_flat: "classify_row 3 [5, 5, 5, 5] = [0, 0, 0, 0]"
  by (simp add: classify_row_def percentile_def Let_def)

subsection \<open>The control signal\<close>

text \<open>
  C6. The claim is that an all-zero mask gives an all-zero control signal and that \<open>lcf\<close>
  then returns the sources unchanged. The call \<open>lcf(S, S, 500, 3, .005, .005)\<close>, which is
  what \<open>run_lcf\<close> makes for a recording sampled at 500 Hz and \<open>lcf_winsize = .005\<close>, has
  windows of \<open>int(2.5) = 2\<close> samples. For the constant row \<open>[5, 5, 5, 5]\<close> no sample is
  marked, and yet the control signal is \<open>nan\<close> at every sample and \<open>lcf\<close> returns \<open>nan\<close> at
  every sample, without raising.
\<close>

theorem C6_zero_mask_gives_nan:
  "map (classify_row 3) [[5, 5, 5, 5]] = [[0, 0, 0, 0]]
   \<and> control_signal [[0, 0, 0, 0]] 2 2 = Inr [[NaN, NaN, NaN, NaN]]
   \<and> lcf [[5, 5, 5, 5]] [[5, 5, 5, 5]] 500 3 0.005 0.005 = Inr [[NaN, NaN, NaN, NaN]]"
proof -
  have a: "map (classify_row 3) [[5, 5, 5, 5]] = [[0, 0, 0, 0]]"
    by (simp add: classify_row_flat)
  have b: "mix [[5, 5, 5, 5]] [[NaN, NaN, NaN, NaN]] = Inr [[NaN, NaN, NaN, NaN]]"
    by (simp add: mix_def np_broadcast_def)
  have c: "lcf [[5, 5, 5, 5]] [[5, 5, 5, 5]] 500 3 0.005 0.005 = Inr [[NaN, NaN, NaN, NaN]]"
    unfolding lcf_def width_2 a control_signal_zero using b by simp
  show ?thesis using a control_signal_zero c by (intro conjI)
qed

text \<open>
  C7. The claim is that every sample of the control signal of a binary mask lies in
  \<open>[0, 1]\<close>. With a transition window of two samples the control signal of the mask
  \<open>[0, 0, 0, 0, 1]\<close> is \<open>nan\<close> at every sample, and neither \<open>0 <= nan\<close> nor \<open>nan <= 1\<close>
  holds.
\<close>

theorem C7_control_signal_gives_nan:
  "control_signal [[0, 0, 0, 0, 1]] 2 2 = Inr [[NaN, NaN, NaN, NaN, NaN]]
   \<and> \<not> sample_le (Finite 0) NaN \<and> \<not> sample_le NaN (Finite 1)"
  using control_signal_mark by simp

text \<open>
  C10. The claim is that no cleaned sample is larger in absolute value than the sample it
  comes from. The call \<open>lcf(S, S, 500, 3, .005, .005)\<close> on the row \<open>[0, 1, 2, 3, 100]\<close>
  returns an array of the shape of \<open>S\<close> that is \<open>nan\<close> at every sample, and
  \<open>abs(nan) <= abs(100)\<close> does not hold.
\<close>

theorem C10_lcf_gives_nan:
  "lcf [[0, 1, 2, 3, 100]] [[0, 1, 2, 3, 100]] 500 3 0.005 0.005
     = Inr [[NaN, NaN, NaN, NaN, NaN]]
   \<and> \<not> sample_le (sample_abs NaN) (sample_abs (Finite 100))"
proof -
  have a: "map (classify_row 3) [[0, 1, 2, 3, 100]] = [[0, 0, 0, 0, 1]]"
    by (simp add: classify_row_example)
  have b: "mix [[0, 1, 2, 3, 100]] [[NaN, NaN, NaN, NaN, NaN]] = Inr [[NaN, NaN, NaN, NaN, NaN]]"
    by (simp add: mix_def np_broadcast_def)
  have c: "lcf [[0, 1, 2, 3, 100]] [[0, 1, 2, 3, 100]] 500 3 0.005 0.005
      = Inr [[NaN, NaN, NaN, NaN, NaN]]"
    unfolding lcf_def width_2 a control_signal_mark using b by simp
  show ?thesis using c by simp
qed

section \<open>Facts about \<open>reconstruct_signal\<close>\<close>

lemma np_dot_nth:
  assumes "np_dot A B = Inr C" "i < length A" "t < ncols B"
  shows "length C = length A \<and> length (C ! i) = ncols B
       \<and> C ! i ! t = (\<Sum>k\<leftarrow>[0..<length B]. A ! i ! k * B ! k ! t)"
  using assms by (auto simp: np_dot_def split: if_splits)

lemma np_dot_shape:
  assumes "np_dot A B = Inr C"
  shows "length C = length A \<and> (A \<noteq> [] \<longrightarrow> ncols C = ncols B)"
  using assms by (cases A) (auto simp: np_dot_def ncols_def split: if_splits)

lemma np_dot_rows:
  assumes "np_dot A B = Inr C" "i < length A"
  shows "length (A ! i) = length B"
  using assms by (auto simp: np_dot_def list_all_length split: if_splits)

lemma np_inplace_column_nth:
  assumes "np_inplace_column f data col = Inr out" "length col = length data" "i < length data"
  shows "length out = length data \<and> out ! i = map (\<lambda>x. f x (col ! i)) (data ! i)"
  using assms by (auto simp: np_inplace_column_def)

text \<open>
  C8. Entry \<open>(c, t)\<close> of the reconstructed data is obtained from the sources by, in this
  order, the product with the mixing matrix, the product with the inverse \<open>W\<close> of the
  whitening transform, the addition of the mean of channel \<open>c\<close>, and the multiplication by
  the pre-whitening factor of channel \<open>c\<close>.
\<close>

theorem C8_reconstruct_order:
  assumes ok: "reconstruct_signal linalg_inv sources ica = Inr data"
    and inv: "linalg_inv (pca_components ica) = Inr W"
    and ne: "mixing_matrix ica \<noteq> []"
    and lm: "length (pca_mean ica) = length W"
    and lp: "length (pre_whitener ica) = length W"
    and c: "c < length W" and t: "t < ncols sources"
  shows "length data = length W \<and> length (data ! c) = ncols sources \<and>
         data ! c ! t =
           ((\<Sum>k\<leftarrow>[0..<length (mixing_matrix ica)].
               W ! c ! k * (\<Sum>j\<leftarrow>[0..<length sources]. mixing_matrix ica ! k ! j * sources ! j ! t))
            + pca_mean ica ! c) * pre_whitener ica ! c"
proof -
  from ok inv obtain data1 data2 data3 where
    d1: "np_dot (mixing_matrix ica) sources = Inr data1"
    and d2: "np_dot W data1 = Inr data2"
    and d3: "np_inplace_column (+) data2 (pca_mean ica) = Inr data3"
    and d4: "np_inplace_column (*) data3 (pre_whitener ica) = Inr data"
    by (auto simp: reconstruct_signal_def split: sum.splits)
  from np_dot_shape [OF d1] ne have s1: "length data1 = length (mixing_matrix ica)"
    "ncols data1 = ncols sources" by auto
  have t1: "t < ncols data1" using t s1 by simp
  from np_dot_nth [OF d2 c t1] have s2: "length data2 = length W"
    "length (data2 ! c) = ncols sources"
    "data2 ! c ! t = (\<Sum>k\<leftarrow>[0..<length data1]. W ! c ! k * data1 ! k ! t)"
    using s1 by auto
  have inner: "\<And>k. k \<in> set [0..<length data1] \<Longrightarrow>
      W ! c ! k * data1 ! k ! t =
      W ! c ! k * (\<Sum>j\<leftarrow>[0..<length sources]. mixing_matrix ica ! k ! j * sources ! j ! t)"
  proof -
    fix k assume "k \<in> set [0..<length data1]"
    then have "k < length (mixing_matrix ica)" using s1 by simp
    from np_dot_nth [OF d1 this t] show "W ! c ! k * data1 ! k ! t =
      W ! c ! k * (\<Sum>j\<leftarrow>[0..<length sources]. mixing_matrix ica ! k ! j * sources ! j ! t)"
      by simp
  qed
  have e2: "data2 ! c ! t = (\<Sum>k\<leftarrow>[0..<length (mixing_matrix ica)].
               W ! c ! k * (\<Sum>j\<leftarrow>[0..<length sources]. mixing_matrix ica ! k ! j * sources ! j ! t))"
    unfolding s2(3) s1(1) [symmetric]
    by (rule arg_cong [where f = sum_list], rule map_cong) (use inner in auto)
  have c2: "c < length data2" using c s2 by simp
  from np_inplace_column_nth [OF d3 _ c2] lm s2 have s3: "length data3 = length W"
    "data3 ! c = map (\<lambda>x. x + pca_mean ica ! c) (data2 ! c)" by auto
  have c3: "c < length data3" using c s3 by simp
  from np_inplace_column_nth [OF d4 _ c3] lp s3 have s4: "length data = length W"
    "data ! c = map (\<lambda>x. x * pre_whitener ica ! c) (data3 ! c)" by auto
  have tl: "t < length (data2 ! c)" using t s2 by simp
  show ?thesis using s4 s3 s2(2) e2 tl by simp
qed

text \<open>C8 at two channels and two samples.\<close>

theorem C8_reconstruct_order_witness:
  "reconstruct_signal (\<lambda>m. Inr [[1/2, 0], [0, 1/4]]) [[1, 2], [3, 4]]
     \<lparr>mixing_matrix = [[1, 1], [0, 1]], pca_components = [[2, 0], [0, 4]],
      pca_mean = [10, 20], pre_whitener = [2, 3]\<rparr> = Inr [[24, 26], [249/4, 63]]
   \<and> [[24, 26], [249/4, 63::real]] ! 1 ! 0 = ((0 * (1 * 1 + 1 * 3) + 1/4 * (0 * 1 + 1 * 3)) + 20) * 3"
proof -
  let ?ica = "\<lparr>mixing_matrix = [[1, 1], [0, 1]], pca_components = [[2, 0], [0, 4]],
      pca_mean = [10, 20], pre_whitener = [2, 3::real]\<rparr>"
  let ?inv = "\<lambda>m::matrix. (Inr [[1/2, 0], [0, 1/4]] :: error + matrix)"
  have r: "reconstruct_signal ?inv [[1, 2], [3, 4]] ?ica = Inr [[24, 26], [249/4, 63]]"
    by (simp add: reconstruct_signal_def np_dot_def ncols_def np_inplace_column_def)
  have i: "?inv (pca_components ?ica) = Inr [[1/2, 0], [0, 1/4]]" by simp
  from C8_reconstruct_order [OF r i, of 1 0] show ?thesis using r by (simp add: ncols_def)
qed

end
